theory Spec2Isabelle
  imports Main "HOL-Library.AList" "HOL-Library.Sublist"
begin

section \<open>The file system the worker runs against\<close>

text \<open>
  \<^verbatim>\<open>src/builder/worker.py\<close> talks to the file system through \<^verbatim>\<open>os\<close>, \<^verbatim>\<open>os.path\<close> and
  \<^verbatim>\<open>shutil\<close>. The file system is one tree: a node is a regular file with its content or
  a directory with its entries. A path is the list of its components below the root, which
  is what \<^verbatim>\<open>os.path.abspath\<close> hands to the rest of \<^verbatim>\<open>main\<close>. Symbolic links, permissions and
  other metadata are not part of the model: every directory can be listed and written by
  the worker, so \<^verbatim>\<open>PermissionError\<close> is not among the exceptions.
\<close>

type_synonym path = "string list"

datatype node = File string | Dir "(string \<times> node) list"

text \<open>The exceptions the file system operations raise.\<close>

datatype exn =
    FileNotFoundError
  | NotADirectoryError
  | IsADirectoryError
  | FileExistsError
  | RecursionError
  | OSError

fun resolve :: "node \<Rightarrow> path \<Rightarrow> node option" where
  "resolve n [] = Some n"
| "resolve (File c) (x # p) = None"
| "resolve (Dir es) (x # p) = (case map_of es x of None \<Rightarrow> None | Some m \<Rightarrow> resolve m p)"

text \<open>
  The exception for a path that does not resolve: \<^verbatim>\<open>NotADirectoryError\<close> when a regular file
  stands where a directory of the path should be, \<^verbatim>\<open>FileNotFoundError\<close> otherwise.
\<close>

fun missing_error :: "node \<Rightarrow> path \<Rightarrow> exn" where
  "missing_error n [] = FileNotFoundError"
| "missing_error (File c) (x # p) = NotADirectoryError"
| "missing_error (Dir es) (x # p) =
     (case map_of es x of None \<Rightarrow> FileNotFoundError | Some m \<Rightarrow> missing_error m p)"

text \<open>\<^verbatim>\<open>os.path.exists\<close>, \<^verbatim>\<open>os.path.isdir\<close>, \<^verbatim>\<open>os.listdir\<close>.\<close>

definition path_exists :: "node \<Rightarrow> path \<Rightarrow> bool" where
  "path_exists fs p = (resolve fs p \<noteq> None)"

definition path_isdir :: "node \<Rightarrow> path \<Rightarrow> bool" where
  "path_isdir fs p = (case resolve fs p of Some (Dir es) \<Rightarrow> True | _ \<Rightarrow> False)"

definition listdir :: "node \<Rightarrow> path \<Rightarrow> exn + string list" where
  "listdir fs p =
     (case resolve fs p of
        None \<Rightarrow> Inl (missing_error fs p)
      | Some (File c) \<Rightarrow> Inl NotADirectoryError
      | Some (Dir es) \<Rightarrow> Inr (map fst es))"

text \<open>
  Reading a file as \<^verbatim>\<open>open(p, 'r')\<close> does: \<open>None\<close> stands for the exception raised when
  \<open>p\<close> is missing or is a directory.
\<close>

definition read_file :: "node \<Rightarrow> path \<Rightarrow> string option" where
  "read_file fs p = (case resolve fs p of Some (File c) \<Rightarrow> Some c | _ \<Rightarrow> None)"

text \<open>
  Every change of the tree happens at one entry of one directory. \<open>alter f fs p\<close> walks to
  the directory that holds \<open>p\<close> and lets \<open>f\<close> decide, from what is there now, what is there
  afterwards (\<open>None\<close>: no entry) or which exception is raised. The root itself is not an
  entry of any directory.
\<close>

fun alter :: "(node option \<Rightarrow> exn + node option) \<Rightarrow> node \<Rightarrow> path \<Rightarrow> exn + node" where
  "alter f n [] = Inl OSError"
| "alter f (File c) (x # p) = Inl NotADirectoryError"
| "alter f (Dir es) [x] =
     (case f (map_of es x) of
        Inl e \<Rightarrow> Inl e
      | Inr None \<Rightarrow> Inr (Dir (AList.delete x es))
      | Inr (Some m) \<Rightarrow> Inr (Dir (AList.update x m es)))"
| "alter f (Dir es) (x # y # p) =
     (case map_of es x of
        None \<Rightarrow> Inl FileNotFoundError
      | Some m \<Rightarrow>
          (case alter f m (y # p) of
             Inl e \<Rightarrow> Inl e
           | Inr m' \<Rightarrow> Inr (Dir (AList.update x m' es))))"

text \<open>\<^verbatim>\<open>shutil.rmtree(p)\<close>: deletes the directory \<open>p\<close> with everything below it.\<close>

definition rmtree :: "node \<Rightarrow> path \<Rightarrow> exn + node" where
  "rmtree fs p =
     alter (\<lambda>old. case old of
              None \<Rightarrow> Inl FileNotFoundError
            | Some (File c) \<Rightarrow> Inl NotADirectoryError
            | Some (Dir es) \<Rightarrow> Inr None) fs p"

text \<open>
  \<^verbatim>\<open>open(p, 'w')\<close> followed by \<^verbatim>\<open>write\<close>: creates or truncates the regular file \<open>p\<close>; the
  directory holding it must exist and \<open>p\<close> must not be a directory.
\<close>

definition write_file :: "node \<Rightarrow> path \<Rightarrow> string \<Rightarrow> exn + node" where
  "write_file fs p content =
     alter (\<lambda>old. case old of
              Some (Dir es) \<Rightarrow> Inl IsADirectoryError
            | _ \<Rightarrow> Inr (Some (File content))) fs p"

text \<open>
  \<^verbatim>\<open>os.makedirs(p, exist_ok=ok)\<close>: creates \<open>p\<close> and every missing directory above it. It
  raises when a regular file is in the way, and when \<open>p\<close> is already a directory unless
  \<open>ok\<close> is set.
\<close>

fun fresh_dirs :: "path \<Rightarrow> node" where
  "fresh_dirs [] = Dir []"
| "fresh_dirs (x # p) = Dir [(x, fresh_dirs p)]"

fun makedirs :: "node \<Rightarrow> path \<Rightarrow> bool \<Rightarrow> exn + node" where
  "makedirs (File c) [] ok = Inl FileExistsError"
| "makedirs (Dir es) [] ok = (if ok then Inr (Dir es) else Inl FileExistsError)"
| "makedirs (File c) (x # p) ok = Inl NotADirectoryError"
| "makedirs (Dir es) (x # p) ok =
     (case map_of es x of
        None \<Rightarrow> Inr (Dir (AList.update x (fresh_dirs p) es))
      | Some m \<Rightarrow>
          (case makedirs m p ok of
             Inl e \<Rightarrow> Inl e
           | Inr m' \<Rightarrow> Inr (Dir (AList.update x m' es))))"

text \<open>
  \<^verbatim>\<open>shutil.copytree(src, dst)\<close>: lists \<open>src\<close>, creates \<open>dst\<close> (which must not exist) with
  \<^verbatim>\<open>os.makedirs\<close>, then copies the listed entries into it, directories recursively. A copy
  of a subtree is the same \<open>node\<close> value. When \<open>dst\<close> lies inside \<open>src\<close> below an entry that
  was listed, the recursion walks into the directory it is filling and never comes back:
  Python ends it with an exception. That exception is \<^verbatim>\<open>RecursionError\<close> when the interpreter's
  recursion limit is reached first, as it is for short names; with long names a path outgrows
  the system's limit first and \<^verbatim>\<open>shutil.Error\<close> is raised instead. The model writes
  \<^verbatim>\<open>RecursionError\<close> for both; the general theorems below say only that an exception is
  raised.
\<close>

definition copytree :: "node \<Rightarrow> path \<Rightarrow> path \<Rightarrow> exn + node" where
  "copytree fs src dst =
     (case resolve fs src of
        None \<Rightarrow> Inl (missing_error fs src)
      | Some (File c) \<Rightarrow> Inl NotADirectoryError
      | Some (Dir entries) \<Rightarrow>
          (case makedirs fs dst False of
             Inl e \<Rightarrow> Inl e
           | Inr fs1 \<Rightarrow>
               if strict_prefix src dst \<and> dst ! length src \<in> set (map fst entries)
               then Inl RecursionError
               else alter (\<lambda>old. Inr (Some (Dir entries))) fs1 dst))"

section \<open>Artifact locator\<close>

definition candidates :: "path list" where
  "candidates =
     [[''dist''], [''build''], [''out''], [''.next'', ''standalone''], [''.next'', ''out''],
      [''public''], [''_site'']]"

text \<open>The \<^verbatim>\<open>for candidate in candidates\<close> loop of \<^verbatim>\<open>find_build_output\<close>.\<close>

fun find_build_output_loop :: "node \<Rightarrow> path \<Rightarrow> path list \<Rightarrow> exn + path option" where
  "find_build_output_loop fs project_path [] = Inr None"
| "find_build_output_loop fs project_path (candidate # rest) =
     (let full_path = project_path @ candidate in
      if path_exists fs full_path \<and> path_isdir fs full_path then
        (case listdir fs full_path of
           Inl e \<Rightarrow> Inl e
         | Inr names \<Rightarrow>
             if names \<noteq> [] then Inr (Some full_path)
             else find_build_output_loop fs project_path rest)
      else find_build_output_loop fs project_path rest)"

definition find_build_output :: "node \<Rightarrow> path \<Rightarrow> exn + path option" where
  "find_build_output fs project_path = find_build_output_loop fs project_path candidates"

text \<open>
  What the specification asks of a candidate: it exists, is a directory, and has at least
  one entry.
\<close>

definition nonempty_dir :: "node \<Rightarrow> path \<Rightarrow> bool" where
  "nonempty_dir fs p =
     (path_exists fs p \<and> path_isdir fs p \<and> (case listdir fs p of Inr names \<Rightarrow> names \<noteq> [] | Inl e \<Rightarrow> False))"

section \<open>What the worker takes from its environment\<close>

text \<open>
  Three library calls are not computed by the worker and not by this model either:
  \<^verbatim>\<open>os.path.abspath\<close> (it depends on the working directory), \<^verbatim>\<open>json.load\<close> and
  \<^verbatim>\<open>subprocess.run\<close>. They are fields of an environment, and every theorem holds for every
  environment. A JSON document is parsed into the values Python would build from it;
  \<open>json_load\<close> gives \<open>None\<close> where \<^verbatim>\<open>json.load\<close> raises. A command may change the file
  system, whether it completes, times out or cannot be started.
\<close>

datatype json =
    JNull
  | JBool bool
  | JNumber string
  | JString string
  | JArray "json list"
  | JObject "(string \<times> json) list"

record completed_process =
  returncode :: int
  stdout :: string
  stderr :: string

text \<open>
  What \<^verbatim>\<open>subprocess.run(..., timeout=600)\<close> raises: \<^verbatim>\<open>TimeoutExpired\<close> when the command is
  still running after 600 seconds, or any other \<^verbatim>\<open>Exception\<close> \<open>e\<close>, kept as \<^verbatim>\<open>str(e)\<close>.
\<close>

datatype run_exn = TimeoutExpired | OtherException string

record env =
  abspath :: "string \<Rightarrow> path"
  json_load :: "string \<Rightarrow> json option"
  subprocess_run :: "string list \<Rightarrow> path \<Rightarrow> node \<Rightarrow> (run_exn + completed_process) \<times> node"

section \<open>Command runner\<close>

text \<open>
  The \<^verbatim>\<open>try\<close> block of \<^verbatim>\<open>run_command\<close>, then the function with its two handlers. Logging
  is left out everywhere: it changes neither the results nor the file system.
\<close>

definition run_command_try ::
  "env \<Rightarrow> string list \<Rightarrow> path \<Rightarrow> node \<Rightarrow> (run_exn + bool \<times> string \<times> string) \<times> node" where
  "run_command_try env cmd cwd fs =
     (case subprocess_run env cmd cwd fs of
        (Inl e, fs') \<Rightarrow> (Inl e, fs')
      | (Inr result, fs') \<Rightarrow> (Inr (returncode result = 0, stdout result, stderr result), fs'))"

definition run_command ::
  "env \<Rightarrow> string list \<Rightarrow> path \<Rightarrow> node \<Rightarrow> (bool \<times> string \<times> string) \<times> node" where
  "run_command env cmd cwd fs =
     (case run_command_try env cmd cwd fs of
        (Inr r, fs') \<Rightarrow> (r, fs')
      | (Inl TimeoutExpired, fs') \<Rightarrow> ((False, '''', ''Build timed out after 10 minutes''), fs')
      | (Inl (OtherException description), fs') \<Rightarrow> ((False, '''', description), fs'))"

section \<open>Project classifier\<close>

text \<open>
  Python's \<^verbatim>\<open>k in v\<close> for a string \<open>k\<close> and a value \<open>v\<close> that came out of \<^verbatim>\<open>json.load\<close>: a key
  of a dict, an element of a list, a substring of a string; \<open>None\<close> is the \<^verbatim>\<open>TypeError\<close>
  for every other value. \<^verbatim>\<open>a or b\<close> evaluates \<open>b\<close> only when \<open>a\<close> is false.
\<close>

definition py_in :: "string \<Rightarrow> json \<Rightarrow> bool option" where
  "py_in k v =
     (case v of
        JObject items \<Rightarrow> Some (k \<in> set (map fst items))
      | JArray elems \<Rightarrow> Some (JString k \<in> set elems)
      | JString s \<Rightarrow> Some (sublist k s)
      | _ \<Rightarrow> None)"

definition py_or :: "bool option \<Rightarrow> bool option \<Rightarrow> bool option" where
  "py_or a b = (case a of None \<Rightarrow> None | Some x \<Rightarrow> if x then Some True else b)"

text \<open>\<^verbatim>\<open>pkg.get(key, {})\<close> on a dict.\<close>

definition dict_get :: "(string \<times> json) list \<Rightarrow> string \<Rightarrow> json" where
  "dict_get items key = (case map_of items key of None \<Rightarrow> JObject [] | Some v \<Rightarrow> v)"

text \<open>
  The statements after \<^verbatim>\<open>json.load\<close> inside the \<^verbatim>\<open>try\<close> of \<^verbatim>\<open>detect_project_type\<close>.
  \<open>None\<close>: an exception was raised, which the bare \<^verbatim>\<open>except\<close> swallows (\<^verbatim>\<open>pkg.get\<close> on a
  value that is no dict, \<^verbatim>\<open>in\<close> on a value that has no membership test).
\<close>

definition classify_manifest :: "json \<Rightarrow> string option" where
  "classify_manifest pkg =
     (case pkg of
        JObject items \<Rightarrow>
          (let scripts = dict_get items ''scripts'';
               deps = dict_get items ''dependencies''
           in case py_in ''next'' deps of
                None \<Rightarrow> None
              | Some True \<Rightarrow> Some ''nextjs''
              | Some False \<Rightarrow>
                  (case py_or (py_in ''vite'' deps) (py_in ''build'' scripts) of
                     None \<Rightarrow> None
                   | Some True \<Rightarrow> Some ''vite''
                   | Some False \<Rightarrow>
                       (case py_in ''react-scripts'' deps of
                          None \<Rightarrow> None
                        | Some True \<Rightarrow> Some ''cra''
                        | Some False \<Rightarrow>
                            (case py_in ''build'' scripts of
                               None \<Rightarrow> None
                             | Some True \<Rightarrow> Some ''node''
                             | Some False \<Rightarrow> Some ''static''))))
      | _ \<Rightarrow> None)"

definition detect_project_type :: "env \<Rightarrow> node \<Rightarrow> path \<Rightarrow> string" where
  "detect_project_type env fs project_path =
     (let package_json = project_path @ [''package.json''];
          index_html = project_path @ [''index.html''];
          from_manifest =
            (if path_exists fs package_json then
               (case read_file fs package_json of
                  None \<Rightarrow> None
                | Some text \<Rightarrow>
                    (case json_load env text of
                       None \<Rightarrow> None
                     | Some pkg \<Rightarrow> classify_manifest pkg))
             else None)
      in case from_manifest of
           Some project_type \<Rightarrow> project_type
         | None \<Rightarrow> if path_exists fs index_html then ''static'' else ''unknown'')"

section \<open>Node-style build procedure\<close>

definition build_node_project :: "env \<Rightarrow> path \<Rightarrow> node \<Rightarrow> (bool \<times> string) \<times> node" where
  "build_node_project env project_path fs =
     (case run_command env [''which'', ''npm''] project_path fs of
        ((npm_check, out0, err0), fs1) \<Rightarrow>
          if \<not> npm_check then ((False, ''npm not available''), fs1)
          else
            (case run_command env [''npm'', ''install''] project_path fs1 of
               ((success, out1, err1), fs2) \<Rightarrow>
                 if \<not> success then ((False, ''npm install failed: '' @ err1), fs2)
                 else
                   (case run_command env [''npm'', ''run'', ''build''] project_path fs2 of
                      ((success, out2, err2), fs3) \<Rightarrow>
                        if \<not> success
                        then ((True, ''No build script found, serving source files''), fs3)
                        else ((True, ''Build completed successfully''), fs3))))"

section \<open>Deploy stager\<close>

definition copy_to_deploy :: "node \<Rightarrow> path \<Rightarrow> path \<Rightarrow> exn + node" where
  "copy_to_deploy fs source deploy_path =
     (case (if path_exists fs deploy_path then rmtree fs deploy_path else Inr fs) of
        Inl e \<Rightarrow> Inl e
      | Inr fs1 \<Rightarrow> copytree fs1 source deploy_path)"

text \<open>
  The page of \<^verbatim>\<open>create_fallback_page\<close>: the text before the message and the text after it.
  The grape is one code point in Python and four bytes in the file (UTF-8). \<^verbatim>\<open>open(..., 'w')\<close>
  encodes with the encoding of the locale; the model is of a UTF-8 locale. Under a locale
  that cannot encode the grape, \<^verbatim>\<open>write\<close> raises \<^verbatim>\<open>UnicodeEncodeError\<close>, which is one more
  exception that nothing in \<^verbatim>\<open>main\<close> catches.
\<close>

definition html_head :: string where
  \<open>html_head =
     ''<!DOCTYPE html>\<newline><html lang="en">\<newline><head>\<newline>'' @
     ''    <meta charset="UTF-8">\<newline>'' @
     ''    <meta name="viewport" content="width=device-width, initial-scale=1.0">\<newline>'' @
     ''    <title>Grape.ai Deployment</title>\<newline>'' @
     ''    <style>\<newline>'' @
     ''        body {\<newline>'' @
     ''            font-family: system-ui, -apple-system, sans-serif;\<newline>'' @
     ''            margin: 0;\<newline>'' @
     ''            padding: 40px;\<newline>'' @
     ''            background: linear-gradient(135deg, #667eea 0%, #764ba2 100%);\<newline>'' @
     ''            color: white;\<newline>'' @
     ''            min-height: 100vh;\<newline>'' @
     ''            display: flex;\<newline>'' @
     ''            align-items: center;\<newline>'' @
     ''            justify-content: center;\<newline>'' @
     ''        }\<newline>'' @
     ''        .container {\<newline>'' @
     ''            text-align: center;\<newline>'' @
     ''            background: rgba(255,255,255,0.1);\<newline>'' @
     ''            padding: 40px;\<newline>'' @
     ''            border-radius: 20px;\<newline>'' @
     ''            backdrop-filter: blur(10px);\<newline>'' @
     ''        }\<newline>'' @
     ''        h1 { margin: 0 0 20px 0; }\<newline>'' @
     ''        .grape { font-size: 48px; }\<newline>'' @
     ''    </style>\<newline></head>\<newline><body>\<newline>'' @
     ''    <div class="container">\<newline>'' @
     ''        <div class="grape">'' @ [CHR 0xF0, CHR 0x9F, CHR 0x8D, CHR 0x87] @ ''</div>\<newline>'' @
     ''        <h1>Grape.ai</h1>\<newline>'' @
     ''        <p>''\<close>

definition html_tail :: string where
  \<open>html_tail =
     ''</p>\<newline>'' @
     ''        <p><small>Powered by Grape.ai hosting platform</small></p>\<newline>'' @
     ''    </div>\<newline></body>\<newline></html>''\<close>

definition html_content :: "string \<Rightarrow> string" where
  "html_content message = html_head @ message @ html_tail"

definition create_fallback_page :: "node \<Rightarrow> path \<Rightarrow> string \<Rightarrow> exn + node" where
  "create_fallback_page fs deploy_path message =
     (case makedirs fs deploy_path True of
        Inl e \<Rightarrow> Inl e
      | Inr fs1 \<Rightarrow> write_file fs1 (deploy_path @ [''index.html'']) (html_content message))"

section \<open>Pipeline orchestrator\<close>

text \<open>
  \<^verbatim>\<open>main\<close> in the order of its statements. Three of its parts have names here: the build
  by project type (lines 189 to 194), the \<^verbatim>\<open>if build_output: ... elif ... else\<close> that fills
  the deploy target (lines 199 to 209), and the final check for \<^verbatim>\<open>index.html\<close> (lines 211 to
  214). A run ends by returning, by \<^verbatim>\<open>sys.exit\<close>, or with an exception nobody catches.
\<close>

datatype outcome = Returned node | SysExit nat | Uncaught exn

definition build_by_type :: "env \<Rightarrow> string \<Rightarrow> path \<Rightarrow> node \<Rightarrow> (bool \<times> string) \<times> node" where
  "build_by_type env project_type project_path fs =
     (if project_type \<in> set [''nextjs'', ''vite'', ''cra'', ''node'']
      then build_node_project env project_path fs
      else ((True, ''''), fs))"

definition fill_deploy ::
  "node \<Rightarrow> path \<Rightarrow> path \<Rightarrow> path option \<Rightarrow> bool \<Rightarrow> string \<Rightarrow> exn + node" where
  "fill_deploy fs project_path deploy_path build_output build_success build_message =
     (case build_output of
        Some output_dir \<Rightarrow> copy_to_deploy fs output_dir deploy_path
      | None \<Rightarrow>
          if path_exists fs (project_path @ [''index.html''])
          then copy_to_deploy fs project_path deploy_path
          else if build_success
          then create_fallback_page fs deploy_path ''Project built but no output found''
          else create_fallback_page fs deploy_path (''Build failed: '' @ build_message))"

definition ensure_index :: "node \<Rightarrow> path \<Rightarrow> exn + node" where
  "ensure_index fs deploy_path =
     (if \<not> path_exists fs (deploy_path @ [''index.html''])
      then create_fallback_page fs deploy_path ''Deployment completed''
      else Inr fs)"

definition main :: "env \<Rightarrow> string list \<Rightarrow> node \<Rightarrow> outcome" where
  "main env argv fs =
     (if length argv \<noteq> 3 then SysExit 1
      else
        let project_path = abspath env (argv ! 1);
            deploy_path = abspath env (argv ! 2)
        in if \<not> path_exists fs project_path then SysExit 1
           else
             let project_type = detect_project_type env fs project_path
             in case build_by_type env project_type project_path fs of
                  ((build_success, build_message), fs1) \<Rightarrow>
                    (case find_build_output fs1 project_path of
                       Inl e \<Rightarrow> Uncaught e
                     | Inr build_output \<Rightarrow>
                         (case fill_deploy fs1 project_path deploy_path build_output
                                 build_success build_message of
                            Inl e \<Rightarrow> Uncaught e
                          | Inr fs2 \<Rightarrow>
                              (case ensure_index fs2 deploy_path of
                                 Inl e \<Rightarrow> Uncaught e
                               | Inr fs3 \<Rightarrow> Returned fs3))))"


section \<open>Example runs\<close>

text \<open>
  An environment and a few file systems on which the theorems below are instantiated. The
  environment resolves a relative name against the root, knows one manifest text, finds
  \<^verbatim>\<open>npm\<close>, lets \<^verbatim>\<open>npm install\<close> succeed and \<^verbatim>\<open>npm run build\<close> fail, lets \<^verbatim>\<open>sleep 900\<close> run into
  the timeout, and cannot start any other command.
\<close>

definition example_run ::
  "string list \<Rightarrow> path \<Rightarrow> node \<Rightarrow> (run_exn + completed_process) \<times> node" where
  "example_run cmd cwd fs =
     (if cmd = [''which'', ''npm'']
      then (Inr \<lparr>returncode = 0, stdout = ''/usr/bin/npm'', stderr = ''''\<rparr>, fs)
      else if cmd = [''npm'', ''install'']
      then (Inr \<lparr>returncode = 0, stdout = ''up to date'', stderr = ''''\<rparr>, fs)
      else if cmd = [''npm'', ''run'', ''build'']
      then (Inr \<lparr>returncode = 1, stdout = '''', stderr = ''Missing script: build''\<rparr>, fs)
      else if cmd = [''sleep'', ''900'']
      then (Inl TimeoutExpired, fs)
      else (Inl (OtherException ''No such file or directory''), fs))"

definition example_manifest :: string where
  \<open>example_manifest = ''{"scripts": {"build": "x"}}''\<close>

definition example_env :: env where
  "example_env =
     \<lparr>abspath = (\<lambda>name. [name]),
      json_load = (\<lambda>text. if text = example_manifest
                           then Some (JObject [(''scripts'', JObject [(''build'', JString ''x'')])])
                           else None),
      subprocess_run = example_run\<rparr>"

text \<open>A machine on which no command can be started.\<close>

definition example_env_no_npm :: env where
  "example_env_no_npm =
     \<lparr>abspath = (\<lambda>name. [name]),
      json_load = json_load example_env,
      subprocess_run = (\<lambda>cmd cwd fs. (Inl (OtherException ''No such file or directory''), fs))\<rparr>"

definition example_argv :: "string list" where
  "example_argv = [''worker.py'', ''proj'', ''site'']"

definition fs_empty_project :: node where
  "fs_empty_project = Dir [(''proj'', Dir [])]"

definition fs_build_script :: node where
  "fs_build_script = Dir [(''proj'', Dir [(''package.json'', File example_manifest)])]"

definition fs_two_outputs :: node where
  "fs_two_outputs =
     Dir [(''proj'', Dir [(''dist'', Dir [(''app.js'', File ''a'')]),
                          (''build'', Dir [(''app.js'', File ''b'')])])]"






section \<open>Facts about the file system\<close>

lemma resolve_append:
  "resolve n (p @ q) = (case resolve n p of None \<Rightarrow> None | Some m \<Rightarrow> resolve m q)"
  by (induction n p rule: resolve.induct) (auto split: option.splits)

text \<open>After a change at \<open>p\<close>, the entry at \<open>p\<close> is what \<open>f\<close> made of the old one.\<close>

lemma alter_resolve:
  "alter f n p = Inr n' \<Longrightarrow> f (resolve n p) = Inr (resolve n' p)"
proof (induction f n p arbitrary: n' rule: alter.induct)
  case (3 f es x)
  then show ?case
    by (auto simp: AList.update_conv' AList.delete_conv' split: sum.splits option.splits)
next
  case (4 f es x y p)
  then show ?case
    by (auto simp: AList.update_conv' split: sum.splits option.splits)
qed simp_all






lemma write_file_resolve:
  assumes "write_file fs p c = Inr fs'"
  shows "resolve fs' p = Some (File c)"
proof -
  from assms have
    "(case resolve fs p of Some (Dir es) \<Rightarrow> Inl IsADirectoryError | _ \<Rightarrow> Inr (Some (File c)))
       = Inr (resolve fs' p)"
    unfolding write_file_def by (rule alter_resolve)
  then show ?thesis
    by (auto split: option.splits node.splits)
qed











section \<open>Facts about the pipeline\<close>

lemma find_build_output_loop_find:
  "find_build_output_loop fs P cs =
     Inr (map_option (\<lambda>c. P @ c) (find (\<lambda>c. nonempty_dir fs (P @ c)) cs))"
  by (induction cs)
     (auto simp: nonempty_dir_def path_isdir_def path_exists_def listdir_def Let_def
           split: option.splits node.splits)

lemma create_fallback_page_index:
  "create_fallback_page fs D m = Inr fs' \<Longrightarrow>
     resolve fs' (D @ [''index.html'']) = Some (File (html_content m))"
  by (auto simp: create_fallback_page_def write_file_resolve split: sum.splits)


lemma main_Returned:
  assumes "main env argv fs = Returned fs'"
  shows "\<exists>fs2. ensure_index fs2 (abspath env (argv ! 2)) = Inr fs'"
  using assms
  by (auto simp: main_def Let_def split: if_splits prod.splits sum.splits)

lemma copytree_result:
  assumes "copytree fs src dst = Inr fs'"
  shows "\<exists>es fs1. resolve fs src = Some (Dir es) \<and> makedirs fs dst False = Inr fs1
            \<and> \<not> (strict_prefix src dst \<and> dst ! length src \<in> set (map fst es))
            \<and> alter (\<lambda>old. Inr (Some (Dir es))) fs1 dst = Inr fs'
            \<and> resolve fs' dst = Some (Dir es)"
proof -
  from assms obtain es fs1 where
    a: "resolve fs src = Some (Dir es)" and b: "makedirs fs dst False = Inr fs1"
    and c: "\<not> (strict_prefix src dst \<and> dst ! length src \<in> set (map fst es))"
    and d: "alter (\<lambda>old. Inr (Some (Dir es))) fs1 dst = Inr fs'"
    by (auto simp: copytree_def split: option.splits node.splits sum.splits if_splits)
  from alter_resolve [OF d] have "resolve fs' dst = Some (Dir es)" by simp
  with a b c d show ?thesis by blast
qed

lemma copy_to_deploy_result:
  assumes "copy_to_deploy fs src dst = Inr fs'"
  shows "\<exists>fs1. (if path_exists fs dst then rmtree fs dst = Inr fs1 else fs1 = fs)
           \<and> copytree fs1 src dst = Inr fs'"
  using assms by (auto simp: copy_to_deploy_def split: sum.splits if_splits)

lemma html_content_inject: "html_content a = html_content b \<longleftrightarrow> a = b"
  by (simp add: html_content_def)

lemma create_fallback_page_ensure:
  "create_fallback_page fs D m = Inr fs' \<Longrightarrow> ensure_index fs' D = Inr fs'"
  by (simp add: ensure_index_def path_exists_def create_fallback_page_index)

lemma main_empty_project_eq:
  assumes len: "length argv = 3"
      and empty: "resolve fs (abspath env (argv ! 1)) = Some (Dir [])"
  shows "main env argv fs =
           (case create_fallback_page fs (abspath env (argv ! 2)) ''Project built but no output found'' of
              Inl e \<Rightarrow> Uncaught e
            | Inr fs' \<Rightarrow> Returned fs')"
proof -
  let ?P = "abspath env (argv ! 1)"
  let ?D = "abspath env (argv ! 2)"
  have ex: "path_exists fs ?P"
    using empty by (simp add: path_exists_def)
  have below: "\<not> path_exists fs (?P @ x # q)" for x q
    using empty by (simp add: path_exists_def resolve_append)
  have ty: "detect_project_type env fs ?P = ''unknown''"
    using below by (simp add: detect_project_type_def)
  have bt: "build_by_type env ''unknown'' ?P fs = ((True, ''''), fs)"
    by (simp add: build_by_type_def)
  have "find (\<lambda>c. nonempty_dir fs (?P @ c)) candidates = None"
    using below by (simp add: candidates_def nonempty_dir_def)
  then have fo: "find_build_output fs ?P = Inr None"
    by (simp add: find_build_output_def find_build_output_loop_find)
  have fd: "fill_deploy fs ?P ?D None True '''' =
              create_fallback_page fs ?D ''Project built but no output found''"
    using below by (simp add: fill_deploy_def)
  show ?thesis
  proof (cases "create_fallback_page fs ?D ''Project built but no output found''")
    case (Inl e)
    with len ex ty bt fo fd show ?thesis
      by (simp add: main_def)
  next
    case (Inr fs')
    with len ex ty bt fo fd create_fallback_page_ensure [OF Inr] show ?thesis
      by (simp add: main_def)
  qed
qed

lemma copy_to_deploy_index:
  assumes "copy_to_deploy fs source deploy_path = Inr fs2"
      and "\<not> path_exists fs2 (deploy_path @ [''index.html''])"
  shows "\<exists>fs1. (if path_exists fs deploy_path then rmtree fs deploy_path = Inr fs1 else fs1 = fs)
           \<and> copytree fs1 source deploy_path = Inr fs2
           \<and> \<not> path_exists fs1 (source @ [''index.html''])"
proof -
  from copy_to_deploy_result [OF assms(1)] obtain fs1 where
    fs1: "if path_exists fs deploy_path then rmtree fs deploy_path = Inr fs1 else fs1 = fs"
    and ct: "copytree fs1 source deploy_path = Inr fs2"
    by blast
  from copytree_result [OF ct] obtain es where
    "resolve fs1 source = Some (Dir es)" and "resolve fs2 deploy_path = Some (Dir es)"
    by blast
  with assms(2) have "\<not> path_exists fs1 (source @ [''index.html''])"
    by (simp add: path_exists_def resolve_append)
  with fs1 ct show ?thesis by blast
qed

lemma fill_deploy_then_ensure_index:
  "(build_output = None \<and> \<not> path_exists fs (project_path @ [''index.html''])
      \<and> fill_deploy fs project_path deploy_path build_output build_success build_message = Inr fs2
    \<longrightarrow> read_file fs2 (deploy_path @ [''index.html''])
          = Some (html_content (if build_success then ''Project built but no output found''
                                else ''Build failed: '' @ build_message))
        \<and> ensure_index fs2 deploy_path = Inr fs2)
   \<and> (fill_deploy fs project_path deploy_path build_output build_success build_message = Inr fs2
      \<and> \<not> path_exists fs2 (deploy_path @ [''index.html''])
    \<longrightarrow> ensure_index fs2 deploy_path = create_fallback_page fs2 deploy_path ''Deployment completed''
        \<and> (\<exists>source fs1.
              (build_output = Some source \<or> build_output = None \<and> source = project_path)
              \<and> (if path_exists fs deploy_path then rmtree fs deploy_path = Inr fs1 else fs1 = fs)
              \<and> copytree fs1 source deploy_path = Inr fs2
              \<and> \<not> path_exists fs1 (source @ [''index.html''])))
   \<and> (path_exists fs2 (deploy_path @ [''index.html'']) \<longrightarrow> ensure_index fs2 deploy_path = Inr fs2)"
proof (intro conjI impI)
  assume a: "build_output = None \<and> \<not> path_exists fs (project_path @ [''index.html''])
      \<and> fill_deploy fs project_path deploy_path build_output build_success build_message = Inr fs2"
  then have cf: "create_fallback_page fs deploy_path
          (if build_success then ''Project built but no output found''
           else ''Build failed: '' @ build_message) = Inr fs2"
    by (auto simp: fill_deploy_def split: if_splits)
  from create_fallback_page_index [OF cf]
  show "read_file fs2 (deploy_path @ [''index.html''])
          = Some (html_content (if build_success then ''Project built but no output found''
                                else ''Build failed: '' @ build_message))"
    by (simp add: read_file_def)
  from create_fallback_page_ensure [OF cf]
  show "ensure_index fs2 deploy_path = Inr fs2" .
next
  assume b: "fill_deploy fs project_path deploy_path build_output build_success build_message = Inr fs2
      \<and> \<not> path_exists fs2 (deploy_path @ [''index.html''])"
  then show "ensure_index fs2 deploy_path = create_fallback_page fs2 deploy_path ''Deployment completed''"
    by (simp add: ensure_index_def)
  from b have miss: "\<not> path_exists fs2 (deploy_path @ [''index.html''])" by simp
  from b have fd: "fill_deploy fs project_path deploy_path build_output build_success build_message = Inr fs2"
    by simp
  have no_page: "create_fallback_page fs deploy_path m \<noteq> Inr fs2" for m
    using create_fallback_page_index [of fs deploy_path m fs2] miss
    by (auto simp: path_exists_def)
  from fd no_page obtain source where
    src: "build_output = Some source \<or> build_output = None \<and> source = project_path"
    and cp: "copy_to_deploy fs source deploy_path = Inr fs2"
    by (auto simp: fill_deploy_def split: option.splits if_splits)
  from copy_to_deploy_index [OF cp miss] src
  show "\<exists>source fs1.
              (build_output = Some source \<or> build_output = None \<and> source = project_path)
              \<and> (if path_exists fs deploy_path then rmtree fs deploy_path = Inr fs1 else fs1 = fs)
              \<and> copytree fs1 source deploy_path = Inr fs2
              \<and> \<not> path_exists fs1 (source @ [''index.html''])"
    by blast
next
  assume "path_exists fs2 (deploy_path @ [''index.html''])"
  then show "ensure_index fs2 deploy_path = Inr fs2"
    by (simp add: ensure_index_def)
qed






text \<open>\<^verbatim>\<open>main\<close> after its two checks, with the values of its local variables named.\<close>

lemma main_steps:
  assumes "length argv = 3"
      and "path_exists fs (abspath env (argv ! 1))"
      and "build_by_type env (detect_project_type env fs (abspath env (argv ! 1)))
             (abspath env (argv ! 1)) fs = ((build_success, build_message), fs1)"
      and "find_build_output fs1 (abspath env (argv ! 1)) = Inr build_output"
  shows "main env argv fs =
           (case fill_deploy fs1 (abspath env (argv ! 1)) (abspath env (argv ! 2)) build_output
                   build_success build_message of
              Inl e \<Rightarrow> Uncaught e
            | Inr fs2 \<Rightarrow>
                (case ensure_index fs2 (abspath env (argv ! 2)) of
                   Inl e \<Rightarrow> Uncaught e
                 | Inr fs3 \<Rightarrow> Returned fs3))"
  using assms by (simp add: main_def Let_def)

text \<open>The definitions a run on a concrete file system unfolds.\<close>

lemmas run_defs =
  main_def build_by_type_def fill_deploy_def ensure_index_def create_fallback_page_def
  copy_to_deploy_def copytree_def rmtree_def write_file_def
  detect_project_type_def classify_manifest_def dict_get_def py_in_def py_or_def
  build_node_project_def run_command_def run_command_try_def
  find_build_output_def candidates_def path_exists_def path_isdir_def listdir_def read_file_def
  example_env_def example_env_no_npm_def example_run_def example_argv_def Let_def

section \<open>Claims\<close>




text \<open>
  C2, as the specification states it, fails: an empty project directory ends with the
  fallback page of the branch for "no build output and no \<^verbatim>\<open>index.html\<close>", whose message is
  \<^verbatim>\<open>Project built but no output found\<close>, and the final check finds that page and writes
  nothing. The run below is the one of the claim; the message of its page is not
  \<^verbatim>\<open>Deployment completed\<close>.
\<close>

theorem empty_project_message_counterexample:
  "resolve fs_empty_project (abspath example_env (example_argv ! 1)) = Some (Dir [])
   \<and> main example_env example_argv fs_empty_project =
       Returned (Dir [(''proj'', Dir []),
                      (''site'', Dir [(''index.html'',
                          File (html_content ''Project built but no output found''))])])
   \<and> read_file (Dir [(''proj'', Dir []),
                      (''site'', Dir [(''index.html'',
                          File (html_content ''Project built but no output found''))])])
         (abspath example_env (example_argv ! 2) @ [''index.html''])
       \<noteq> Some (html_content ''Deployment completed'')"
  by (simp add: run_defs fs_empty_project_def html_content_inject)

text \<open>
  C2, amended. For an empty project directory the run is the synthesis of the fallback page
  with the message \<^verbatim>\<open>Project built but no output found\<close> at the deploy target and nothing
  else: it returns exactly when that synthesis succeeds, and then \<^verbatim>\<open>index.html\<close> in the
  deploy target is that page.
\<close>

theorem main_empty_project:
  assumes len: "length argv = 3"
      and empty: "resolve fs (abspath env (argv ! 1)) = Some (Dir [])"
  shows "main env argv fs =
           (case create_fallback_page fs (abspath env (argv ! 2)) ''Project built but no output found'' of
              Inl e \<Rightarrow> Uncaught e
            | Inr fs' \<Rightarrow> Returned fs')
         \<and> (\<forall>fs'. main env argv fs = Returned fs' \<longrightarrow>
               read_file fs' (abspath env (argv ! 2) @ [''index.html''])
                 = Some (html_content ''Project built but no output found''))"
proof -
  note eq = main_empty_project_eq [OF len empty]
  have "read_file fs' (abspath env (argv ! 2) @ [''index.html''])
          = Some (html_content ''Project built but no output found'')"
    if "main env argv fs = Returned fs'" for fs'
  proof -
    from that eq have
      "create_fallback_page fs (abspath env (argv ! 2)) ''Project built but no output found'' = Inr fs'"
      by (auto split: sum.splits)
    from create_fallback_page_index [OF this] show ?thesis
      by (simp add: read_file_def)
  qed
  with eq show ?thesis by blast
qed

theorem main_empty_project_witness:
  "length example_argv = 3
   \<and> resolve fs_empty_project (abspath example_env (example_argv ! 1)) = Some (Dir [])
   \<and> main example_env example_argv fs_empty_project =
       Returned (Dir [(''proj'', Dir []),
                      (''site'', Dir [(''index.html'',
                          File (html_content ''Project built but no output found''))])])
   \<and> read_file (Dir [(''proj'', Dir []),
                      (''site'', Dir [(''index.html'',
                          File (html_content ''Project built but no output found''))])])
         (abspath example_env (example_argv ! 2) @ [''index.html''])
       = Some (html_content ''Project built but no output found'')"
proof -
  have len: "length example_argv = 3"
    by (simp add: example_argv_def)
  have emp: "resolve fs_empty_project (abspath example_env (example_argv ! 1)) = Some (Dir [])"
    by (simp add: run_defs fs_empty_project_def)
  have run: "main example_env example_argv fs_empty_project =
       Returned (Dir [(''proj'', Dir []),
                      (''site'', Dir [(''index.html'',
                          File (html_content ''Project built but no output found''))])])"
    by (simp add: run_defs fs_empty_project_def)
  from main_empty_project [OF len emp] run
  have "read_file (Dir [(''proj'', Dir []),
                      (''site'', Dir [(''index.html'',
                          File (html_content ''Project built but no output found''))])])
         (abspath example_env (example_argv ! 2) @ [''index.html''])
       = Some (html_content ''Project built but no output found'')"
    by blast
  with len emp run show ?thesis
    by simp
qed

text \<open>
  C3. The claim asks for the tag \<^verbatim>\<open>node\<close> when the manifest's scripts have a \<^verbatim>\<open>build\<close> key
  and its dependencies have none of \<^verbatim>\<open>next\<close>, \<^verbatim>\<open>vite\<close>, \<^verbatim>\<open>react-scripts\<close>. On every such
  manifest the code returns \<^verbatim>\<open>vite\<close>: the test \<^verbatim>\<open>'build' in scripts\<close> of the \<^verbatim>\<open>vite\<close> branch
  comes first, and the \<^verbatim>\<open>node\<close> branch behind it is never reached.
\<close>

theorem detect_build_script_only_is_vite:
  assumes "read_file fs (project_path @ [''package.json'']) = Some text"
      and "json_load env text = Some (JObject items)"
      and "dict_get items ''scripts'' = JObject scripts"
      and "dict_get items ''dependencies'' = JObject deps"
      and "''build'' \<in> fst ` set scripts"
      and "''next'' \<notin> fst ` set deps"
      and "''vite'' \<notin> fst ` set deps"
      and "''react-scripts'' \<notin> fst ` set deps"
  shows "detect_project_type env fs project_path = ''vite''"
proof -
  from assms(1) have "path_exists fs (project_path @ [''package.json''])"
    by (auto simp: read_file_def path_exists_def split: option.splits)
  moreover from assms(3-8) have "classify_manifest (JObject items) = Some ''vite''"
    by (simp add: classify_manifest_def py_in_def py_or_def)
  ultimately show ?thesis
    using assms(1,2) by (simp add: detect_project_type_def)
qed

theorem detect_build_script_only_is_vite_witness:
  "read_file fs_build_script ([''proj''] @ [''package.json'']) = Some example_manifest
   \<and> json_load example_env example_manifest
        = Some (JObject [(''scripts'', JObject [(''build'', JString ''x'')])])
   \<and> dict_get [(''scripts'', JObject [(''build'', JString ''x'')])] ''scripts''
        = JObject [(''build'', JString ''x'')]
   \<and> dict_get [(''scripts'', JObject [(''build'', JString ''x'')])] ''dependencies'' = JObject []
   \<and> ''build'' \<in> fst ` set [(''build'', JString ''x'')]
   \<and> ''next'' \<notin> fst ` set ([] :: (string \<times> json) list)
   \<and> ''vite'' \<notin> fst ` set ([] :: (string \<times> json) list)
   \<and> ''react-scripts'' \<notin> fst ` set ([] :: (string \<times> json) list)
   \<and> detect_project_type example_env fs_build_script [''proj''] = ''vite''
   \<and> ''vite'' \<noteq> ''node''"
proof -
  have h1: "read_file fs_build_script ([''proj''] @ [''package.json'']) = Some example_manifest"
    by (simp add: read_file_def fs_build_script_def)
  have h2: "json_load example_env example_manifest
        = Some (JObject [(''scripts'', JObject [(''build'', JString ''x'')])])"
    by (simp add: example_env_def)
  have h3: "dict_get [(''scripts'', JObject [(''build'', JString ''x'')])] ''scripts''
        = JObject [(''build'', JString ''x'')]"
    by (simp add: dict_get_def)
  have h4: "dict_get [(''scripts'', JObject [(''build'', JString ''x'')])] ''dependencies''
        = JObject []"
    by (simp add: dict_get_def)
  have h5: "''build'' \<in> fst ` set [(''build'', JString ''x'')]"
    by simp
  have h6: "k \<notin> fst ` set ([] :: (string \<times> json) list)" for k :: string
    by simp
  from detect_build_script_only_is_vite [OF h1 h2 h3 h4 h5 h6 h6 h6] h1 h2 h3 h4 h5 h6
  show ?thesis
    by simp
qed



text \<open>
  C5. When the probe \<^verbatim>\<open>which npm\<close> and \<^verbatim>\<open>npm install\<close> both succeed and \<^verbatim>\<open>npm run build\<close>
  fails, \<^verbatim>\<open>build_node_project\<close> returns success with exactly the message
  \<^verbatim>\<open>No build script found, serving source files\<close>: the failed build is not a failure of the
  procedure. Each command runs on the file system the one before it left.
\<close>

theorem build_node_project_soft_failure:
  assumes "run_command env [''which'', ''npm''] project_path fs = ((True, out0, err0), fs1)"
      and "run_command env [''npm'', ''install''] project_path fs1 = ((True, out1, err1), fs2)"
      and "run_command env [''npm'', ''run'', ''build''] project_path fs2 = ((False, out2, err2), fs3)"
  shows "build_node_project env project_path fs
           = ((True, ''No build script found, serving source files''), fs3)"
  using assms by (simp add: build_node_project_def)

theorem build_node_project_soft_failure_witness:
  "run_command example_env [''which'', ''npm''] [''proj''] fs_build_script
     = ((True, ''/usr/bin/npm'', ''''), fs_build_script)
   \<and> run_command example_env [''npm'', ''install''] [''proj''] fs_build_script
     = ((True, ''up to date'', ''''), fs_build_script)
   \<and> run_command example_env [''npm'', ''run'', ''build''] [''proj''] fs_build_script
     = ((False, '''', ''Missing script: build''), fs_build_script)
   \<and> build_node_project example_env [''proj''] fs_build_script
     = ((True, ''No build script found, serving source files''), fs_build_script)"
proof -
  have h1: "run_command example_env [''which'', ''npm''] [''proj''] fs_build_script
     = ((True, ''/usr/bin/npm'', ''''), fs_build_script)"
    by (simp add: run_command_def run_command_try_def example_env_def example_run_def)
  have h2: "run_command example_env [''npm'', ''install''] [''proj''] fs_build_script
     = ((True, ''up to date'', ''''), fs_build_script)"
    by (simp add: run_command_def run_command_try_def example_env_def example_run_def)
  have h3: "run_command example_env [''npm'', ''run'', ''build''] [''proj''] fs_build_script
     = ((False, '''', ''Missing script: build''), fs_build_script)"
    by (simp add: run_command_def run_command_try_def example_env_def example_run_def)
  from build_node_project_soft_failure [OF h1 h2 h3] h1 h2 h3 show ?thesis
    by simp
qed

text \<open>
  C6. \<^verbatim>\<open>run_command\<close> hands its caller a result whatever \<^verbatim>\<open>subprocess.run\<close> does, and never
  an exception: when the command runs into the 600 second timeout the result is failure
  with empty output and the error text \<^verbatim>\<open>Build timed out after 10 minutes\<close>; when running it
  fails in any other way the result is failure with empty output and the description of
  the failure; when the command completes, success holds exactly when its exit code is 0,
  and its output and error text are passed on. These are all the cases. What \<^verbatim>\<open>subprocess.run\<close>
  raises and when is the environment's; the clock is not modelled.
\<close>

theorem run_command_never_raises:
  "(\<exists>success out err fs'. run_command env cmd cwd fs = ((success, out, err), fs'))
   \<and> (fst (subprocess_run env cmd cwd fs) = Inl TimeoutExpired \<longrightarrow>
        fst (run_command env cmd cwd fs) = (False, '''', ''Build timed out after 10 minutes''))
   \<and> (\<forall>description. fst (subprocess_run env cmd cwd fs) = Inl (OtherException description) \<longrightarrow>
        fst (run_command env cmd cwd fs) = (False, '''', description))
   \<and> (\<forall>result. fst (subprocess_run env cmd cwd fs) = Inr result \<longrightarrow>
        fst (run_command env cmd cwd fs) = (returncode result = 0, stdout result, stderr result)
        \<and> (fst (fst (run_command env cmd cwd fs)) \<longleftrightarrow> returncode result = 0))
   \<and> snd (run_command env cmd cwd fs) = snd (subprocess_run env cmd cwd fs)"
  by (cases "subprocess_run env cmd cwd fs")
     (auto simp: run_command_def run_command_try_def split: sum.splits run_exn.splits)

theorem run_command_never_raises_witness:
  "fst (subprocess_run example_env [''sleep'', ''900''] [''proj''] fs_empty_project) = Inl TimeoutExpired
   \<and> fst (run_command example_env [''sleep'', ''900''] [''proj''] fs_empty_project)
       = (False, '''', ''Build timed out after 10 minutes'')
   \<and> fst (subprocess_run example_env [''yarn''] [''proj''] fs_empty_project)
       = Inl (OtherException ''No such file or directory'')
   \<and> fst (run_command example_env [''yarn''] [''proj''] fs_empty_project)
       = (False, '''', ''No such file or directory'')
   \<and> fst (subprocess_run example_env [''npm'', ''run'', ''build''] [''proj''] fs_empty_project)
       = Inr \<lparr>returncode = 1, stdout = '''', stderr = ''Missing script: build''\<rparr>
   \<and> fst (run_command example_env [''npm'', ''run'', ''build''] [''proj''] fs_empty_project)
       = (False, '''', ''Missing script: build'')
   \<and> fst (subprocess_run example_env [''which'', ''npm''] [''proj''] fs_empty_project)
       = Inr \<lparr>returncode = 0, stdout = ''/usr/bin/npm'', stderr = ''''\<rparr>
   \<and> fst (run_command example_env [''which'', ''npm''] [''proj''] fs_empty_project)
       = (True, ''/usr/bin/npm'', '''')"
proof -
  have t: "fst (subprocess_run example_env [''sleep'', ''900''] [''proj''] fs_empty_project)
       = Inl TimeoutExpired"
    by (simp add: example_env_def example_run_def)
  have f: "fst (subprocess_run example_env [''yarn''] [''proj''] fs_empty_project)
       = Inl (OtherException ''No such file or directory'')"
    by (simp add: example_env_def example_run_def)
  have b: "fst (subprocess_run example_env [''npm'', ''run'', ''build''] [''proj''] fs_empty_project)
       = Inr \<lparr>returncode = 1, stdout = '''', stderr = ''Missing script: build''\<rparr>"
    by (simp add: example_env_def example_run_def)
  have w: "fst (subprocess_run example_env [''which'', ''npm''] [''proj''] fs_empty_project)
       = Inr \<lparr>returncode = 0, stdout = ''/usr/bin/npm'', stderr = ''''\<rparr>"
    by (simp add: example_env_def example_run_def)
  from run_command_never_raises [of example_env "[''sleep'', ''900'']" "[''proj'']" fs_empty_project] t
  have rt: "fst (run_command example_env [''sleep'', ''900''] [''proj''] fs_empty_project)
       = (False, '''', ''Build timed out after 10 minutes'')"
    by blast
  from run_command_never_raises [of example_env "[''yarn'']" "[''proj'']" fs_empty_project] f
  have rf: "fst (run_command example_env [''yarn''] [''proj''] fs_empty_project)
       = (False, '''', ''No such file or directory'')"
    by blast
  from run_command_never_raises [of example_env "[''npm'', ''run'', ''build'']" "[''proj'']" fs_empty_project] b
  have rb: "fst (run_command example_env [''npm'', ''run'', ''build''] [''proj''] fs_empty_project)
       = (False, '''', ''Missing script: build'')"
    by fastforce
  from run_command_never_raises [of example_env "[''which'', ''npm'']" "[''proj'']" fs_empty_project] w
  have rw: "fst (run_command example_env [''which'', ''npm''] [''proj''] fs_empty_project)
       = (True, ''/usr/bin/npm'', '''')"
    by fastforce
  from t f b w rt rf rb rw show ?thesis
    by simp
qed







text \<open>
  C9. Classification never returns the tag \<^verbatim>\<open>node\<close>: a \<^verbatim>\<open>build\<close> script already selects the
  earlier \<^verbatim>\<open>vite\<close> branch, so the result is always one of \<^verbatim>\<open>nextjs\<close>, \<^verbatim>\<open>vite\<close>, \<^verbatim>\<open>cra\<close>,
  \<^verbatim>\<open>static\<close>, \<^verbatim>\<open>unknown\<close>. This holds for every file system, every project path and every
  result of \<^verbatim>\<open>json.load\<close>.
\<close>

theorem detect_project_type_never_node:
  "detect_project_type env fs project_path \<noteq> ''node''
   \<and> detect_project_type env fs project_path
        \<in> {''nextjs'', ''vite'', ''cra'', ''static'', ''unknown''}"
proof -
  have tags: "t \<in> {''nextjs'', ''vite'', ''cra'', ''static''}"
    if "classify_manifest pkg = Some t" for pkg t
    using that
    by (auto simp: classify_manifest_def py_or_def Let_def
             split: json.splits option.splits bool.splits if_splits)
  have "detect_project_type env fs project_path
          \<in> {''nextjs'', ''vite'', ''cra'', ''static'', ''unknown''}"
    using tags
    by (auto simp: detect_project_type_def Let_def split: option.splits if_splits)
  then show ?thesis
    by auto
qed

text \<open>
  C10. Take a run of \<^verbatim>\<open>main\<close> that returns, and name the values of its local variables:
  the outcome of the build, the file system \<open>fs1\<close> the build left, and the result of the search
  for build output. When the run takes the branch for "no build output and no \<^verbatim>\<open>index.html\<close>",
  the file system it ends with is the one that branch produced: \<^verbatim>\<open>index.html\<close> in the deploy
  target is the fallback page with the message \<^verbatim>\<open>Project built but no output found\<close> or
  \<^verbatim>\<open>Build failed: \<close> followed by the build message, and the final check wrote nothing. When
  the final check does write its \<^verbatim>\<open>Deployment completed\<close> page, a copy went before it, of the
  build output or of the project root, and the directory that was copied had no \<^verbatim>\<open>index.html\<close>
  at its top when it was copied. When \<^verbatim>\<open>index.html\<close> is there after the copy or the fallback
  page, the final check writes nothing.
\<close>

theorem fallback_page_not_rewritten:
  assumes len: "length argv = 3"
      and P: "P = abspath env (argv ! 1)"
      and D: "D = abspath env (argv ! 2)"
      and ex: "path_exists fs P"
      and build: "build_by_type env (detect_project_type env fs P) P fs
                    = ((build_success, build_message), fs1)"
      and out: "find_build_output fs1 P = Inr build_output"
      and run: "main env argv fs = Returned fs'"
  shows "(build_output = None \<and> \<not> path_exists fs1 (P @ [''index.html'']) \<longrightarrow>
            fill_deploy fs1 P D build_output build_success build_message = Inr fs'
            \<and> read_file fs' (D @ [''index.html''])
                = Some (html_content (if build_success then ''Project built but no output found''
                                      else ''Build failed: '' @ build_message)))
       \<and> (\<forall>fs2. fill_deploy fs1 P D build_output build_success build_message = Inr fs2
                  \<and> \<not> path_exists fs2 (D @ [''index.html'']) \<longrightarrow>
              create_fallback_page fs2 D ''Deployment completed'' = Inr fs'
              \<and> (\<exists>source fsa.
                    (build_output = Some source \<or> build_output = None \<and> source = P)
                    \<and> (if path_exists fs1 D then rmtree fs1 D = Inr fsa else fsa = fs1)
                    \<and> copytree fsa source D = Inr fs2
                    \<and> \<not> path_exists fsa (source @ [''index.html''])))
       \<and> (\<forall>fs2. fill_deploy fs1 P D build_output build_success build_message = Inr fs2
                  \<and> path_exists fs2 (D @ [''index.html'']) \<longrightarrow> fs' = fs2)"
proof -
  note parts = fill_deploy_then_ensure_index
                 [of build_output fs1 P D build_success build_message]
  from main_steps [OF len ex [unfolded P] build [unfolded P] out [unfolded P]] run P D
  obtain fs2 where fd: "fill_deploy fs1 P D build_output build_success build_message = Inr fs2"
    and ei: "ensure_index fs2 D = Inr fs'"
    by (auto split: sum.splits)
  have one: "fill_deploy fs1 P D build_output build_success build_message = Inr fs'
            \<and> read_file fs' (D @ [''index.html''])
                = Some (html_content (if build_success then ''Project built but no output found''
                                      else ''Build failed: '' @ build_message))"
    if "build_output = None \<and> \<not> path_exists fs1 (P @ [''index.html''])"
  proof -
    from parts [of fs2] that fd
    have "read_file fs2 (D @ [''index.html''])
            = Some (html_content (if build_success then ''Project built but no output found''
                                  else ''Build failed: '' @ build_message))"
      and "ensure_index fs2 D = Inr fs2"
      by blast+
    with ei fd show ?thesis by simp
  qed
  have two: "create_fallback_page fs2' D ''Deployment completed'' = Inr fs'
              \<and> (\<exists>source fsa.
                    (build_output = Some source \<or> build_output = None \<and> source = P)
                    \<and> (if path_exists fs1 D then rmtree fs1 D = Inr fsa else fsa = fs1)
                    \<and> copytree fsa source D = Inr fs2'
                    \<and> \<not> path_exists fsa (source @ [''index.html'']))"
    if h: "fill_deploy fs1 P D build_output build_success build_message = Inr fs2'
           \<and> \<not> path_exists fs2' (D @ [''index.html''])" for fs2'
  proof -
    from h fd have eq: "fs2' = fs2" by simp
    from parts [of fs2'] h
    have "ensure_index fs2' D = create_fallback_page fs2' D ''Deployment completed''"
      and "\<exists>source fsa.
                    (build_output = Some source \<or> build_output = None \<and> source = P)
                    \<and> (if path_exists fs1 D then rmtree fs1 D = Inr fsa else fsa = fs1)
                    \<and> copytree fsa source D = Inr fs2'
                    \<and> \<not> path_exists fsa (source @ [''index.html''])"
      by blast+
    with ei eq show ?thesis by simp
  qed
  have three: "fs' = fs2'"
    if h: "fill_deploy fs1 P D build_output build_success build_message = Inr fs2'
           \<and> path_exists fs2' (D @ [''index.html''])" for fs2'
  proof -
    from h fd have eq: "fs2' = fs2" by simp
    from parts [of fs2'] h have "ensure_index fs2' D = Inr fs2'" by blast
    with ei eq show ?thesis by simp
  qed
  from one two three show ?thesis
    by blast
qed

theorem fallback_page_not_rewritten_witness:
  "length example_argv = 3
   \<and> path_exists fs_build_script [''proj'']
   \<and> build_by_type example_env_no_npm
        (detect_project_type example_env_no_npm fs_build_script [''proj'']) [''proj''] fs_build_script
       = ((False, ''npm not available''), fs_build_script)
   \<and> find_build_output fs_build_script [''proj''] = Inr None
   \<and> \<not> path_exists fs_build_script ([''proj''] @ [''index.html''])
   \<and> main example_env_no_npm example_argv fs_build_script =
       Returned (Dir [(''proj'', Dir [(''package.json'', File example_manifest)]),
                      (''site'', Dir [(''index.html'',
                          File (html_content ''Build failed: npm not available''))])])
   \<and> read_file (Dir [(''proj'', Dir [(''package.json'', File example_manifest)]),
                      (''site'', Dir [(''index.html'',
                          File (html_content ''Build failed: npm not available''))])])
        ([''site''] @ [''index.html''])
       = Some (html_content ''Build failed: npm not available'')
   \<and> path_exists fs_two_outputs [''proj'']
   \<and> build_by_type example_env
        (detect_project_type example_env fs_two_outputs [''proj'']) [''proj''] fs_two_outputs
       = ((True, ''''), fs_two_outputs)
   \<and> find_build_output fs_two_outputs [''proj''] = Inr (Some [''proj'', ''dist''])
   \<and> fill_deploy fs_two_outputs [''proj''] [''site''] (Some [''proj'', ''dist'']) True '''' =
       Inr (Dir [(''proj'', Dir [(''dist'', Dir [(''app.js'', File ''a'')]),
                                 (''build'', Dir [(''app.js'', File ''b'')])]),
                 (''site'', Dir [(''app.js'', File ''a'')])])
   \<and> \<not> path_exists
          (Dir [(''proj'', Dir [(''dist'', Dir [(''app.js'', File ''a'')]),
                                (''build'', Dir [(''app.js'', File ''b'')])]),
                (''site'', Dir [(''app.js'', File ''a'')])])
          ([''site''] @ [''index.html''])
   \<and> main example_env example_argv fs_two_outputs =
       Returned (Dir [(''proj'', Dir [(''dist'', Dir [(''app.js'', File ''a'')]),
                                      (''build'', Dir [(''app.js'', File ''b'')])]),
                      (''site'', Dir [(''app.js'', File ''a''),
                                      (''index.html'', File (html_content ''Deployment completed''))])])
   \<and> create_fallback_page
          (Dir [(''proj'', Dir [(''dist'', Dir [(''app.js'', File ''a'')]),
                                (''build'', Dir [(''app.js'', File ''b'')])]),
                (''site'', Dir [(''app.js'', File ''a'')])]) [''site''] ''Deployment completed''
       = Inr (Dir [(''proj'', Dir [(''dist'', Dir [(''app.js'', File ''a'')]),
                                   (''build'', Dir [(''app.js'', File ''b'')])]),
                   (''site'', Dir [(''app.js'', File ''a''),
                                   (''index.html'', File (html_content ''Deployment completed''))])])"
proof -
  let ?page = "Dir [(''proj'', Dir [(''package.json'', File example_manifest)]),
                    (''site'', Dir [(''index.html'',
                        File (html_content ''Build failed: npm not available''))])]"
  let ?copied = "Dir [(''proj'', Dir [(''dist'', Dir [(''app.js'', File ''a'')]),
                                      (''build'', Dir [(''app.js'', File ''b'')])]),
                      (''site'', Dir [(''app.js'', File ''a'')])]"
  let ?final = "Dir [(''proj'', Dir [(''dist'', Dir [(''app.js'', File ''a'')]),
                                     (''build'', Dir [(''app.js'', File ''b'')])]),
                     (''site'', Dir [(''app.js'', File ''a''),
                                     (''index.html'', File (html_content ''Deployment completed''))])]"
  have len: "length example_argv = 3"
    by (simp add: example_argv_def)
  have P1: "[''proj''] = abspath example_env_no_npm (example_argv ! 1)"
    and D1: "[''site''] = abspath example_env_no_npm (example_argv ! 2)"
    and P2: "[''proj''] = abspath example_env (example_argv ! 1)"
    and D2: "[''site''] = abspath example_env (example_argv ! 2)"
    by (simp_all add: example_env_def example_env_no_npm_def example_argv_def)
  have ex1: "path_exists fs_build_script [''proj'']"
    by (simp add: path_exists_def fs_build_script_def)
  have b1: "build_by_type example_env_no_npm
        (detect_project_type example_env_no_npm fs_build_script [''proj'']) [''proj''] fs_build_script
       = ((False, ''npm not available''), fs_build_script)"
    by (simp add: run_defs fs_build_script_def)
  have o1: "find_build_output fs_build_script [''proj''] = Inr None"
    by (simp add: run_defs fs_build_script_def)
  have n1: "\<not> path_exists fs_build_script ([''proj''] @ [''index.html''])"
    by (simp add: path_exists_def fs_build_script_def)
  have m1: "main example_env_no_npm example_argv fs_build_script = Returned ?page"
    by (simp add: run_defs fs_build_script_def)
  from fallback_page_not_rewritten [OF len P1 D1 ex1 b1 o1 m1] n1
  have "read_file ?page ([''site''] @ [''index.html''])
          = Some (html_content (if False then ''Project built but no output found''
                                else ''Build failed: '' @ ''npm not available''))"
    by blast
  then have r1: "read_file ?page ([''site''] @ [''index.html''])
              = Some (html_content ''Build failed: npm not available'')"
    by simp
  have ex2: "path_exists fs_two_outputs [''proj'']"
    by (simp add: path_exists_def fs_two_outputs_def)
  have b2: "build_by_type example_env
        (detect_project_type example_env fs_two_outputs [''proj'']) [''proj''] fs_two_outputs
       = ((True, ''''), fs_two_outputs)"
    by (simp add: run_defs fs_two_outputs_def)
  have o2: "find_build_output fs_two_outputs [''proj''] = Inr (Some [''proj'', ''dist''])"
    by (simp add: run_defs fs_two_outputs_def)
  have f2: "fill_deploy fs_two_outputs [''proj''] [''site''] (Some [''proj'', ''dist'']) True ''''
              = Inr ?copied"
    by (simp add: run_defs fs_two_outputs_def)
  have n2: "\<not> path_exists ?copied ([''site''] @ [''index.html''])"
    by (simp add: path_exists_def)
  have m2: "main example_env example_argv fs_two_outputs = Returned ?final"
    by (simp add: run_defs fs_two_outputs_def)
  from fallback_page_not_rewritten [OF len P2 D2 ex2 b2 o2 m2] f2 n2
  have r2: "create_fallback_page ?copied [''site''] ''Deployment completed'' = Inr ?final"
    by blast
  from len ex1 b1 o1 n1 m1 r1 ex2 b2 o2 f2 n2 m2 r2 show ?thesis
    by blast
qed

end
